theory Spec2Isabelle
  imports Complex_Main
begin

section \<open>Data model of \<^verbatim>\<open>server.js\<close>\<close>

text \<open>
  The server keeps two mongoose collections, users and payments, and answers six routes.
  Each handler is modelled as a function from the request and the store to the response
  and the store afterwards. What mongoose and MongoDB do for the handlers (lookup, insert
  under unique indexes, \<^verbatim>\<open>$inc\<close>, update by identifier, schema defaults) is modelled
  on lists of documents in insertion order, for a database that answers every request.

  Scope of the model:
  \<^item> a number is a JavaScript number, an IEEE 754 double: a rational that the format
    represents, an infinity or NaN, with sums rounded to the nearest double, ties to even;
    the two zeros, which no response tells apart, are one, and the BSON integer types
    MongoDB may store a whole number in are not distinguished from the double the handler
    sees;
  \<^item> the fields of a payment body and \<^verbatim>\<open>storageGB\<close> are any JSON value or absent, and
    mongoose casts them to the type of their schema path; how JavaScript reads a string as
    a number and prints a number as a string is a parameter of that cast;
  \<^item> the fields of a user body and \<^verbatim>\<open>status\<close> are absent or hold a string, the type their
    schema paths declare;
  \<^item> route parameters are strings, as Express delivers them;
  \<^item> an ObjectId is the number its 24 hexadecimal digits denote, and a new document gets
    an identifier no stored document of its collection has;
  \<^item> the version key mongoose adds to each document never changes and is left out.
\<close>

datatype number = Finite rat | PosInf | NegInf | NaN

text \<open>
  A value of a request body, as \<^verbatim>\<open>express.json()\<close> delivers it. \<open>JNum q\<close> is a number written
  in the body with the value \<open>q\<close>; the handler sees the double nearest to \<open>q\<close>.
\<close>

datatype json =
    JNull
  | JBool bool
  | JNum rat
  | JStr string
  | JArr "json list"
  | JObj "(string \<times> json) list"

text \<open>\<^verbatim>\<open>userSchema\<close>, with the \<^verbatim>\<open>_id\<close> mongoose adds.\<close>

record user =
  u_id :: nat
  uid :: string
  name :: "string option"
  email :: string
  storageGB :: number

text \<open>\<^verbatim>\<open>paymentSchema\<close>, with the \<^verbatim>\<open>_id\<close> mongoose adds; \<^verbatim>\<open>createdAt\<close> in milliseconds.\<close>

record payment =
  p_id :: nat
  userId :: string
  gb :: number
  totalPrice :: number
  upiLink :: string
  status :: string
  createdAt :: int

record store =
  users :: "user list"
  payments :: "payment list"

definition empty_store :: store where
  "empty_store = \<lparr>users = [], payments = []\<rparr>"

text \<open>The failures of a mongoose call that the handlers' \<^verbatim>\<open>catch\<close> blocks receive.\<close>

datatype store_error = ValidationError | DuplicateKey | CastError

text \<open>
  What a handler sends: \<^verbatim>\<open>{error: "..."}\<close> with the handler's own text, \<^verbatim>\<open>{error: err.message}\<close>
  for a caught failure, \<^verbatim>\<open>{message, user}\<close>, a user, a payment, or the payment array.
\<close>

datatype reply =
    Error_text string
  | Error_message store_error
  | Message_user string user
  | User_json user
  | Payment_json payment
  | Payments_json "payment list"

record response =
  status_code :: nat
  body :: reply

text \<open>Request bodies, after \<^verbatim>\<open>express.json()\<close>; \<open>None\<close> is a field that is not there.\<close>

record users_body =
  body_uid :: "string option"
  body_name :: "string option"
  body_email :: "string option"

record storage_body =
  body_storageGB :: "json option"

record payments_body =
  body_userId :: "json option"
  body_gb :: "json option"
  body_totalPrice :: "json option"
  body_upiLink :: "json option"

record status_body =
  body_status :: "string option"

text \<open>
  \<^verbatim>\<open>Number(s)\<close> on a string and \<^verbatim>\<open>String(n)\<close> on a number, as the JavaScript runtime computes
  them; the server's code holds neither, and the model takes both as given.
\<close>

record conversions =
  Number_of_string :: "string \<Rightarrow> number"
  String_of_number :: "number \<Rightarrow> string"

section \<open>JavaScript numbers\<close>

text \<open>The number of binary digits of a positive integer.\<close>

function bit_length :: "int \<Rightarrow> nat" where
  "bit_length n = (if n \<le> 0 then 0 else Suc (bit_length (n div 2)))"
  by pat_completeness auto
termination
  by (relation "measure nat") auto

declare bit_length.simps [simp del]

text \<open>The nearest integer, the even one of the two when they are equally near.\<close>

definition round_half_even :: "rat \<Rightarrow> int" where
  "round_half_even x =
     (let f = \<lfloor>x\<rfloor>; r = x - of_int f
      in if r < 1 / 2 then f else if 1 / 2 < r then f + 1 else if even f then f else f + 1)"

text \<open>
  The double nearest to a rational. The magnitude is counted in units of \<open>1 / 2 ^ 1074\<close>,
  the smallest positive double; \<open>s\<close> is the number of binary digits beyond the 53 that a
  significand holds, so that the doubles of this magnitude are \<open>2 ^ s\<close> units apart; a result
  of \<open>2 ^ 1024\<close> or more is an infinity.
\<close>

definition round_double :: "rat \<Rightarrow> number" where
  "round_double q =
     (let t = \<bar>q\<bar> * 2 ^ 1074;
          s = bit_length \<lfloor>t\<rfloor> - 53;
          m = round_half_even (t / 2 ^ s);
          v = of_int m * 2 ^ s / 2 ^ 1074
      in if 2 ^ 1024 \<le> v then (if 0 < q then PosInf else NegInf)
         else Finite (if 0 \<le> q then v else - v))"

text \<open>\<^verbatim>\<open>x + y\<close> on numbers.\<close>

fun double_add :: "number \<Rightarrow> number \<Rightarrow> number" where
  "double_add (Finite a) (Finite b) = round_double (a + b)"
| "double_add NaN y = NaN"
| "double_add x NaN = NaN"
| "double_add PosInf NegInf = NaN"
| "double_add NegInf PosInf = NaN"
| "double_add PosInf y = PosInf"
| "double_add x PosInf = PosInf"
| "double_add NegInf y = NegInf"
| "double_add x NegInf = NegInf"

section \<open>JavaScript tests on values\<close>

text \<open>\<^verbatim>\<open>!x\<close> on a string field: true when the field is missing or the empty string.\<close>

definition falsy_string :: "string option \<Rightarrow> bool" where
  "falsy_string x = (case x of None \<Rightarrow> True | Some s \<Rightarrow> s = [])"

text \<open>
  \<^verbatim>\<open>!x\<close> on any value: true for the missing field, \<^verbatim>\<open>null\<close>, \<^verbatim>\<open>false\<close>, a number read as zero
  and the empty string; every other number and string, \<^verbatim>\<open>true\<close>, and every array and object
  are truthy. (A body cannot hold NaN.)
\<close>

fun falsy :: "json option \<Rightarrow> bool" where
  "falsy None = True"
| "falsy (Some JNull) = True"
| "falsy (Some (JBool b)) = (\<not> b)"
| "falsy (Some (JNum q)) = (round_double q = Finite 0)"
| "falsy (Some (JStr s)) = (s = [])"
| "falsy (Some (JArr xs)) = False"
| "falsy (Some (JObj kvs)) = False"


text \<open>\<^verbatim>\<open>typeof x === "number"\<close>.\<close>

fun typeof_number :: "json option \<Rightarrow> bool" where
  "typeof_number (Some (JNum n)) = True"
| "typeof_number _ = False"

section \<open>The store operations the handlers call\<close>

text \<open>The first element that satisfies the test is replaced; the rest stays as it is.\<close>

fun update_first :: "('a \<Rightarrow> bool) \<Rightarrow> ('a \<Rightarrow> 'a) \<Rightarrow> 'a list \<Rightarrow> 'a list" where
  "update_first P f [] = []"
| "update_first P f (x # xs) = (if P x then f x # xs else x # update_first P f xs)"

text \<open>A new ObjectId: one above every identifier of the collection.\<close>

definition fresh_oid :: "nat list \<Rightarrow> nat" where
  "fresh_oid ids = Suc (fold max ids 0)"

text \<open>
  \<^verbatim>\<open>User.findOne({ uid })\<close>: the first user with that \<^verbatim>\<open>uid\<close>, or \<^verbatim>\<open>null\<close>. Every
  stored user has a \<^verbatim>\<open>uid\<close>, so a filter on an absent value finds none.
\<close>

definition User_findOne :: "string option \<Rightarrow> user list \<Rightarrow> user option" where
  "User_findOne k us = (case k of None \<Rightarrow> None | Some k' \<Rightarrow> find (\<lambda>u. uid u = k') us)"

text \<open>
  \<^verbatim>\<open>new User({ uid, name, email })\<close> followed by \<^verbatim>\<open>user.save()\<close>: the schema's \<^verbatim>\<open>required\<close>
  validators (a required string must be there and not empty), the default of \<^verbatim>\<open>storageGB\<close>,
  then the insert, which the unique indexes on \<^verbatim>\<open>uid\<close> and \<^verbatim>\<open>email\<close> refuse for a value
  already stored.
\<close>

definition User_save ::
  "string option \<Rightarrow> string option \<Rightarrow> string option \<Rightarrow> user list \<Rightarrow> store_error + (user \<times> user list)" where
  "User_save k n e us =
     (case (k, e) of
        (Some k', Some e') \<Rightarrow>
          if k' = [] \<or> e' = [] then Inl ValidationError
          else if k' \<in> set (map uid us) \<or> e' \<in> set (map email us) then Inl DuplicateKey
          else
            let doc = \<lparr>u_id = fresh_oid (map u_id us), uid = k', name = n, email = e',
                       storageGB = Finite 0\<rparr>
            in Inr (doc, us @ [doc])
      | _ \<Rightarrow> Inl ValidationError)"

text \<open>
  \<^verbatim>\<open>User.findOneAndUpdate({ uid }, { $inc: { storageGB } }, { new: true })\<close>: the first user
  with that \<^verbatim>\<open>uid\<close> gets the amount added as numbers add, and the document after the update
  is returned; with no such user nothing is written and the result is \<^verbatim>\<open>null\<close>.
\<close>

definition User_findOneAndUpdate_inc ::
  "string \<Rightarrow> number \<Rightarrow> user list \<Rightarrow> user option \<times> user list" where
  "User_findOneAndUpdate_inc k d us =
     (case find (\<lambda>u. uid u = k) us of
        None \<Rightarrow> (None, us)
      | Some u \<Rightarrow>
          (Some (u\<lparr>storageGB := double_add (storageGB u) d\<rparr>),
           update_first (\<lambda>u. uid u = k)
             (\<lambda>u. u\<lparr>storageGB := double_add (storageGB u) d\<rparr>) us))"

text \<open>
  The cast of a value to a \<^verbatim>\<open>String\<close> path: \<^verbatim>\<open>null\<close> and the missing value stay \<^verbatim>\<open>null\<close>, a
  string is kept, a number and a boolean are printed, an object that holds a non-empty
  string under \<^verbatim>\<open>_id\<close> gives that string (the later entry where a key is repeated), and an
  array or any other object is a cast error.
\<close>

fun castString :: "conversions \<Rightarrow> json option \<Rightarrow> store_error + string option" where
  "castString js None = Inr None"
| "castString js (Some JNull) = Inr None"
| "castString js (Some (JStr s)) = Inr (Some s)"
| "castString js (Some (JNum q)) = Inr (Some (String_of_number js (round_double q)))"
| "castString js (Some (JBool b)) = Inr (Some (if b then ''true'' else ''false''))"
| "castString js (Some (JArr xs)) = Inl CastError"
| "castString js (Some (JObj kvs)) =
     (case map_of (rev kvs) ''_id'' of
        Some (JStr i) \<Rightarrow> if i = [] then Inl CastError else Inr (Some i)
      | _ \<Rightarrow> Inl CastError)"

text \<open>
  The cast of a value to a \<^verbatim>\<open>Number\<close> path: \<^verbatim>\<open>null\<close>, the missing value and the empty string
  become \<^verbatim>\<open>null\<close>, a number is kept, a string is read as a number and is a cast error when it
  reads as NaN, a boolean is 1 or 0, and every array and object is a cast error.
\<close>

fun castNumber :: "conversions \<Rightarrow> json option \<Rightarrow> store_error + number option" where
  "castNumber js None = Inr None"
| "castNumber js (Some JNull) = Inr None"
| "castNumber js (Some (JStr s)) =
     (if s = [] then Inr None
      else if Number_of_string js s = NaN then Inl CastError
      else Inr (Some (Number_of_string js s)))"
| "castNumber js (Some (JBool b)) = Inr (Some (Finite (if b then 1 else 0)))"
| "castNumber js (Some (JNum q)) = Inr (Some (round_double q))"
| "castNumber js (Some (JArr xs)) = Inl CastError"
| "castNumber js (Some (JObj kvs)) = Inl CastError"

text \<open>
  \<^verbatim>\<open>new Payment({ userId, gb, totalPrice, upiLink })\<close> followed by \<^verbatim>\<open>payment.save()\<close>: each
  value is cast to the type of its path, and a value that cannot be cast fails the
  validation that \<^verbatim>\<open>save\<close> runs; so do the \<^verbatim>\<open>required\<close> validators when a string is missing or
  empty or a number is missing; then come the defaults of \<^verbatim>\<open>status\<close> and \<^verbatim>\<open>createdAt\<close>
  (\<^verbatim>\<open>Date.now\<close>, the clock reading \<open>now\<close>) and the insert.
\<close>

definition Payment_save ::
  "conversions \<Rightarrow> int \<Rightarrow> json option \<Rightarrow> json option \<Rightarrow> json option \<Rightarrow> json option
     \<Rightarrow> payment list \<Rightarrow> store_error + (payment \<times> payment list)" where
  "Payment_save js now k g t l ps =
     (case (castString js k, castNumber js g, castNumber js t, castString js l) of
        (Inr (Some k'), Inr (Some g'), Inr (Some t'), Inr (Some l')) \<Rightarrow>
          if k' = [] \<or> l' = [] then Inl ValidationError
          else
            let doc = \<lparr>p_id = fresh_oid (map p_id ps), userId = k', gb = g', totalPrice = t',
                       upiLink = l', status = ''PENDING'', createdAt = now\<rparr>
            in Inr (doc, ps @ [doc])
      | _ \<Rightarrow> Inl ValidationError)"

text \<open>\<^verbatim>\<open>Payment.find()\<close>.\<close>

definition Payment_find :: "payment list \<Rightarrow> payment list" where
  "Payment_find ps = ps"

text \<open>
  The cast of a route parameter to an ObjectId: 24 hexadecimal digits, read as a number;
  any other string is a cast error.
\<close>

definition hex_digit :: "char \<Rightarrow> nat option" where
  "hex_digit c =
     (let n = of_char c :: nat in
      if 48 \<le> n \<and> n \<le> 57 then Some (n - 48)
      else if 97 \<le> n \<and> n \<le> 102 then Some (n - 87)
      else if 65 \<le> n \<and> n \<le> 70 then Some (n - 55)
      else None)"

fun hex_value :: "nat \<Rightarrow> string \<Rightarrow> nat option" where
  "hex_value acc [] = Some acc"
| "hex_value acc (c # cs) =
     (case hex_digit c of None \<Rightarrow> None | Some d \<Rightarrow> hex_value (16 * acc + d) cs)"

definition castObjectId :: "string \<Rightarrow> nat option" where
  "castObjectId s = (if length s = 24 then hex_value 0 s else None)"

text \<open>
  \<^verbatim>\<open>Payment.findByIdAndUpdate(id, { status }, { new: true })\<close>: the identifier is cast first;
  a key whose value is \<^verbatim>\<open>undefined\<close> is dropped from the update (mongoose 6 and later;
  mongoose 5 wrote \<^verbatim>\<open>null\<close>), and an update left empty only reads the document; otherwise \<^verbatim>\<open>status\<close> is set, with no validator run, and the
  document after the update is returned.
\<close>

definition Payment_findByIdAndUpdate ::
  "string \<Rightarrow> string option \<Rightarrow> payment list \<Rightarrow> store_error + (payment option \<times> payment list)" where
  "Payment_findByIdAndUpdate i st ps =
     (case castObjectId i of
        None \<Rightarrow> Inl CastError
      | Some k \<Rightarrow>
          (case find (\<lambda>p. p_id p = k) ps of
             None \<Rightarrow> Inr (None, ps)
           | Some p \<Rightarrow>
               (case st of
                  None \<Rightarrow> Inr (Some p, ps)
                | Some v \<Rightarrow>
                    Inr (Some (p\<lparr>status := v\<rparr>),
                         update_first (\<lambda>p. p_id p = k) (\<lambda>p. p\<lparr>status := v\<rparr>) ps))))"

section \<open>The route handlers\<close>

definition send :: "nat \<Rightarrow> reply \<Rightarrow> response" where
  "send c b = \<lparr>status_code = c, body = b\<rparr>"

text \<open>\<^verbatim>\<open>POST /api/users\<close>\<close>

definition post_api_users :: "users_body \<Rightarrow> store \<Rightarrow> response \<times> store" where
  "post_api_users req s =
     (if falsy_string (body_uid req) \<or> falsy_string (body_email req)
      then (send 400 (Error_text ''UID and email are required''), s)
      else
        (case User_findOne (body_uid req) (users s) of
           None \<Rightarrow>
             (case User_save (body_uid req) (body_name req) (body_email req) (users s) of
                Inl err \<Rightarrow> (send 500 (Error_message err), s)
              | Inr (u, us) \<Rightarrow> (send 201 (Message_user ''User created'' u), s\<lparr>users := us\<rparr>))
         | Some u \<Rightarrow> (send 200 (Message_user ''User already exists'' u), s)))"

text \<open>\<^verbatim>\<open>GET /api/users/:uid\<close>\<close>

definition get_api_users_uid :: "string \<Rightarrow> store \<Rightarrow> response \<times> store" where
  "get_api_users_uid k s =
     (case User_findOne (Some k) (users s) of
        None \<Rightarrow> (send 404 (Error_text ''User not found''), s)
      | Some u \<Rightarrow> (send 200 (User_json u), s))"

text \<open>
  \<^verbatim>\<open>PUT /api/users/:uid/storage\<close>; the first case is \<^verbatim>\<open>typeof storageGB === "number"\<close>, the
  other one every other value and the missing field.
\<close>

definition put_api_users_uid_storage :: "string \<Rightarrow> storage_body \<Rightarrow> store \<Rightarrow> response \<times> store" where
  "put_api_users_uid_storage k req s =
     (case body_storageGB req of
        Some (JNum q) \<Rightarrow>
          (case User_findOneAndUpdate_inc k (round_double q) (users s) of
             (None, us) \<Rightarrow> (send 404 (Error_text ''User not found''), s)
           | (Some u, us) \<Rightarrow> (send 200 (Message_user ''Storage updated'' u), s\<lparr>users := us\<rparr>))
      | _ \<Rightarrow> (send 400 (Error_text ''storageGB must be a number''), s))"

text \<open>
  \<^verbatim>\<open>POST /api/payments\<close>; \<open>js\<close> are the runtime's conversions and \<open>now\<close> is the clock reading
  when the document is built.
\<close>

definition post_api_payments ::
  "conversions \<Rightarrow> int \<Rightarrow> payments_body \<Rightarrow> store \<Rightarrow> response \<times> store" where
  "post_api_payments js now req s =
     (if falsy (body_userId req) \<or> falsy (body_gb req)
         \<or> falsy (body_totalPrice req) \<or> falsy (body_upiLink req)
      then (send 400 (Error_text ''Missing required fields''), s)
      else
        (case Payment_save js now (body_userId req) (body_gb req) (body_totalPrice req)
                (body_upiLink req) (payments s) of
           Inl err \<Rightarrow> (send 500 (Error_message err), s)
         | Inr (p, ps) \<Rightarrow> (send 201 (Payment_json p), s\<lparr>payments := ps\<rparr>)))"

text \<open>\<^verbatim>\<open>GET /api/payments\<close>\<close>

definition get_api_payments :: "store \<Rightarrow> response \<times> store" where
  "get_api_payments s = (send 200 (Payments_json (Payment_find (payments s))), s)"

text \<open>\<^verbatim>\<open>PUT /api/payments/:id\<close>\<close>

definition put_api_payments_id :: "string \<Rightarrow> status_body \<Rightarrow> store \<Rightarrow> response \<times> store" where
  "put_api_payments_id i req s =
     (case Payment_findByIdAndUpdate i (body_status req) (payments s) of
        Inl err \<Rightarrow> (send 500 (Error_message err), s)
      | Inr (None, ps) \<Rightarrow> (send 404 (Error_text ''Payment not found''), s)
      | Inr (Some p, ps) \<Rightarrow> (send 200 (Payment_json p), s\<lparr>payments := ps\<rparr>))"

text \<open>Both unique indexes of \<^verbatim>\<open>userSchema\<close> hold of a collection.\<close>

definition users_unique :: "user list \<Rightarrow> bool" where
  "users_unique us = (distinct (map uid us) \<and> distinct (map email us))"

text \<open>
  The stores the server can be in: it starts with empty collections, and every request to
  one of the six routes, with any parameter, body, conversions and clock reading, leads
  from one store to the next. The root route reads and writes nothing.
\<close>

inductive reachable :: "store \<Rightarrow> bool" where
  start: "reachable empty_store"
| post_users: "reachable s \<Longrightarrow> reachable (snd (post_api_users req s))"
| get_user: "reachable s \<Longrightarrow> reachable (snd (get_api_users_uid k s))"
| put_storage: "reachable s \<Longrightarrow> reachable (snd (put_api_users_uid_storage k sreq s))"
| post_payments: "reachable s \<Longrightarrow> reachable (snd (post_api_payments js now preq s))"
| get_payments: "reachable s \<Longrightarrow> reachable (snd (get_api_payments s))"
| put_payment: "reachable s \<Longrightarrow> reachable (snd (put_api_payments_id i treq s))"

section \<open>Facts about lists and identifiers\<close>

lemma find_distinct_key:
  "distinct (map f xs) \<Longrightarrow> x \<in> set xs \<Longrightarrow> find (\<lambda>y. f y = f x) xs = Some x"
  by (induction xs) force+

lemma find_None_key: "k \<notin> set (map f xs) \<Longrightarrow> find (\<lambda>y. f y = k) xs = None"
  by (induction xs) auto


lemma filter_key_absent: "k \<notin> set (map f xs) \<Longrightarrow> filter (\<lambda>x. f x = k) xs = []"
  by (induction xs) auto

lemma update_first_distinct_key:
  "distinct (map f xs) \<Longrightarrow> x \<in> set xs \<Longrightarrow>
   update_first (\<lambda>y. f y = f x) g xs = map (\<lambda>y. if y = x then g y else y) xs"
proof (induction xs)
  case Nil
  then show ?case by simp
next
  case (Cons a xs)
  show ?case
  proof (cases "a = x")
    case True
    with Cons.prems have "\<forall>y \<in> set xs. y \<noteq> x" by force
    then have "map (\<lambda>y. if y = x then g y else y) xs = xs"
      by (simp add: map_idI)
    with True show ?thesis by simp
  next
    case False
    with Cons.prems have "f a \<noteq> f x" by force
    with False Cons show ?thesis by simp
  qed
qed

lemma map_update_first:
  "(\<And>x. h (f x) = h x) \<Longrightarrow> map h (update_first P f xs) = map h xs"
  by (induction xs) simp_all

lemma fold_max_above: "(a::nat) \<le> fold max ids a"
proof (induction ids arbitrary: a)
  case Nil
  show ?case by simp
next
  case (Cons i ids)
  have "a \<le> max i a" by simp
  also have "max i a \<le> fold max ids (max i a)" by (rule Cons.IH)
  finally show ?case by simp
qed

lemma fold_max_ge: "x \<in> set ids \<Longrightarrow> x \<le> fold max ids (a::nat)"
proof (induction ids arbitrary: a)
  case Nil
  then show ?case by simp
next
  case (Cons i ids)
  show ?case
  proof (cases "x = i")
    case True
    have "i \<le> max i a" by simp
    also have "max i a \<le> fold max ids (max i a)" by (rule fold_max_above)
    finally show ?thesis using True by simp
  next
    case False
    with Cons.prems have "x \<in> set ids" by simp
    then show ?thesis using Cons.IH by simp
  qed
qed

lemma fresh_oid_new: "fresh_oid ids \<notin> set ids"
  using fold_max_ge [of "fresh_oid ids" ids 0] by (auto simp: fresh_oid_def)

lemma castObjectId_1: "castObjectId ''000000000000000000000001'' = Some 1"
  by (simp add: castObjectId_def hex_digit_def)

lemma castObjectId_2: "castObjectId ''00000000000000000000000b'' = Some 11"
  by (simp add: castObjectId_def hex_digit_def)

lemma castObjectId_abc: "castObjectId ''abc'' = None"
  by (simp add: castObjectId_def)

section \<open>Facts about numbers\<close>

lemma bit_length_nonpos: "n \<le> 0 \<Longrightarrow> bit_length n = 0"
  by (simp add: bit_length.simps)

lemma bit_length_pos: "0 < n \<Longrightarrow> bit_length n = Suc (bit_length (n div 2))"
  by (subst bit_length.simps) simp

lemma bit_length_less: "n < 2 ^ bit_length n"
proof (induction n rule: bit_length.induct)
  case (1 n)
  show ?case
  proof (cases "n \<le> 0")
    case True
    then show ?thesis by (simp add: bit_length_nonpos)
  next
    case False
    with 1 have "n div 2 < 2 ^ bit_length (n div 2)" by simp
    then have "n < 2 * 2 ^ bit_length (n div 2)" by linarith
    with False show ?thesis by (simp add: bit_length_pos)
  qed
qed

lemma bit_length_ge: "0 < n \<Longrightarrow> 2 ^ (bit_length n - 1) \<le> n"
proof (induction n rule: bit_length.induct)
  case (1 n)
  show ?case
  proof (cases "n div 2 \<le> 0")
    case True
    with 1 have "n = 1" by linarith
    then show ?thesis by (simp add: bit_length_pos bit_length_nonpos)
  next
    case False
    with 1 have "2 ^ (bit_length (n div 2) - 1) \<le> n div 2" by simp
    moreover from False have "0 < bit_length (n div 2)"
      by (simp add: bit_length_pos)
    ultimately have "2 ^ bit_length (n div 2) \<le> 2 * (n div 2)"
      by (cases "bit_length (n div 2)") simp_all
    also have "\<dots> \<le> n" by linarith
    finally show ?thesis using 1 by (simp add: bit_length_pos)
  qed
qed

lemma bit_length_le: "n < 2 ^ k \<Longrightarrow> bit_length n \<le> k"
proof (rule ccontr)
  assume a: "n < 2 ^ k" and "\<not> bit_length n \<le> k"
  then have k: "k \<le> bit_length n - 1" by simp
  have pos: "0 < n"
  proof (rule ccontr)
    assume "\<not> 0 < n"
    then have "bit_length n = 0" by (simp add: bit_length_nonpos)
    with \<open>\<not> bit_length n \<le> k\<close> show False by simp
  qed
  have "(2::int) ^ k \<le> 2 ^ (bit_length n - 1)" using k by (simp add: power_increasing)
  also have "\<dots> \<le> n" using pos by (rule bit_length_ge)
  finally show False using a by simp
qed

lemma bit_length_eq: "2 ^ k \<le> n \<Longrightarrow> n < 2 ^ Suc k \<Longrightarrow> bit_length n = Suc k"
proof -
  assume lo: "2 ^ k \<le> n" and hi: "n < 2 ^ Suc k"
  have "bit_length n \<le> Suc k" using hi by (rule bit_length_le)
  moreover have "\<not> bit_length n \<le> k"
  proof
    assume "bit_length n \<le> k"
    then have "(2::int) ^ bit_length n \<le> 2 ^ k" by (simp add: power_increasing)
    with bit_length_less [of n] lo show False by simp
  qed
  ultimately show ?thesis by simp
qed

lemma round_half_even_int: "round_half_even (of_int i) = i"
  by (simp add: round_half_even_def)

text \<open>The rounding of a positive rational whose binary exponent is known.\<close>

lemma round_double_normal:
  assumes pos: "0 < q"
    and lo: "2 ^ (52 + s) \<le> q * 2 ^ 1074" and hi: "q * 2 ^ 1074 < 2 ^ (53 + s)"
    and m: "round_half_even (q * 2 ^ 1074 / 2 ^ s) = m"
    and fin: "of_int m * 2 ^ s / 2 ^ 1074 < (2::rat) ^ 1024"
  shows "round_double q = Finite (of_int m * 2 ^ s / 2 ^ 1074)"
    and "round_double (- q) = Finite (- (of_int m * 2 ^ s / 2 ^ 1074))"
proof -
  define t where "t = q * 2 ^ 1074"
  have t: "\<bar>q\<bar> * 2 ^ 1074 = t" and t': "\<bar>- q\<bar> * 2 ^ 1074 = t"
    using pos by (simp_all add: t_def)
  have "of_int (2 ^ (52 + s)) \<le> t" using lo by (simp add: t_def)
  then have lo': "2 ^ (52 + s) \<le> \<lfloor>t\<rfloor>" by (simp only: le_floor_iff)
  have "t < of_int (2 ^ (53 + s))" using hi by (simp add: t_def)
  then have hi': "\<lfloor>t\<rfloor> < 2 ^ Suc (52 + s)" by (simp add: floor_less_iff)
  have "bit_length \<lfloor>t\<rfloor> = Suc (52 + s)" using lo' hi' by (rule bit_length_eq)
  then have bl: "bit_length \<lfloor>t\<rfloor> - 53 = s" by simp
  have m': "round_half_even (t / 2 ^ s) = m" using m by (simp only: t_def)
  have lt: "\<not> (2::rat) ^ 1024 \<le> of_int m * 2 ^ s / 2 ^ 1074" using fin by simp
  have nonneg: "0 \<le> q" "0 < q" "\<not> 0 \<le> - q" "\<not> 0 < - q" using pos by simp_all
  show "round_double q = Finite (of_int m * 2 ^ s / 2 ^ 1074)"
    unfolding round_double_def Let_def t bl m'
    using lt nonneg by (simp only: if_False if_True)
  show "round_double (- q) = Finite (- (of_int m * 2 ^ s / 2 ^ 1074))"
    unfolding round_double_def Let_def t' bl m'
    using lt nonneg by (simp only: if_False if_True)
qed

lemma round_double_0: "round_double 0 = Finite 0"
  by (simp add: round_double_def bit_length_nonpos round_half_even_def)

lemma round_double_int:
  assumes "\<bar>z\<bar> \<le> 2 ^ 53"
  shows "round_double (of_int z) = Finite (of_int z)"
proof (cases "z = 0")
  case True
  then show ?thesis by (simp add: round_double_0)
next
  case False
  define a where "a = \<bar>z\<bar>"
  have pos: "0 < a" and le: "a \<le> 2 ^ 53" using False assms by (simp_all add: a_def)
  define b where "b = bit_length a"
  have b_pos: "0 < b" using pos by (simp add: b_def bit_length_pos)
  have a_lo: "2 ^ (b - 1) \<le> a" using pos unfolding b_def by (rule bit_length_ge)
  have a_hi: "a < 2 ^ b" unfolding b_def by (rule bit_length_less)
  have "a < 2 ^ 54" using le by simp
  then have b_le: "b \<le> 54" unfolding b_def by (rule bit_length_le)
  define s where "s = b + 1021"
  have qpos: "(0::rat) < of_int a" using pos by simp
  have lo: "(2::rat) ^ (52 + s) \<le> of_int a * 2 ^ 1074"
  proof -
    have "52 + s = (b - 1) + 1074" using b_pos by (simp add: s_def)
    then have "(2::rat) ^ (52 + s) = 2 ^ (b - 1) * 2 ^ 1074"
      by (simp only: power_add)
    also have "\<dots> = of_int (2 ^ (b - 1)) * 2 ^ 1074" by simp
    also have "\<dots> \<le> of_int a * 2 ^ 1074"
      using a_lo by (intro mult_right_mono) (simp_all only: of_int_le_iff zero_le_power zero_le_numeral)
    finally show ?thesis .
  qed
  have hi: "of_int a * 2 ^ 1074 < (2::rat) ^ (53 + s)"
  proof -
    have "of_int a * (2::rat) ^ 1074 < of_int (2 ^ b) * 2 ^ 1074"
      using a_hi by (intro mult_strict_right_mono) (simp_all only: of_int_less_iff zero_less_power zero_less_numeral)
    also have "\<dots> = 2 ^ b * 2 ^ 1074" by simp
    also have "\<dots> = 2 ^ (53 + s)"
    proof -
      have "53 + s = b + 1074" by (simp add: s_def)
      then show ?thesis by (simp only: power_add)
    qed
    finally show ?thesis .
  qed
  have quot: "\<exists>c. (of_int a :: rat) * 2 ^ 1074 / 2 ^ s = of_int c \<and> (of_int c :: rat) * 2 ^ s / 2 ^ 1074 = of_int a"
  proof (cases "b = 54")
    case True
    with a_lo le have a: "a = 2 ^ 53" by simp
    have "(of_int a :: rat) * 2 ^ 1074 / 2 ^ s = of_int (2 ^ 52)"
      by (simp add: a s_def True)
    moreover have "(of_int (2 ^ 52) :: rat) * 2 ^ s / 2 ^ 1074 = of_int a"
      by (simp add: a s_def True)
    ultimately show ?thesis by blast
  next
    case False
    with b_le have "s \<le> 1074" by (simp add: s_def)
    then obtain j where j: "1074 = s + j" by (auto simp: le_iff_add)
    have p: "(2::rat) ^ 1074 = 2 ^ s * 2 ^ j" by (simp only: j power_add)
    have "(of_int a :: rat) * 2 ^ 1074 / 2 ^ s = of_int (a * 2 ^ j)"
      by (simp only: p) simp
    moreover have "(of_int (a * 2 ^ j) :: rat) * 2 ^ s / 2 ^ 1074 = of_int a"
      by (simp only: p) simp
    ultimately show ?thesis by blast
  qed
  then obtain c where c1: "(of_int a :: rat) * 2 ^ 1074 / 2 ^ s = of_int c"
    and c2: "(of_int c :: rat) * 2 ^ s / 2 ^ 1074 = of_int a" by blast
  have m: "round_half_even (of_int a * 2 ^ 1074 / 2 ^ s) = c"
    by (simp only: c1 round_half_even_int)
  have fin: "of_int c * 2 ^ s / 2 ^ 1074 < (2::rat) ^ 1024"
  proof -
    have "(of_int a :: rat) \<le> of_int (2 ^ 53)" using le by (simp only: of_int_le_iff)
    also have "\<dots> < 2 ^ 1024" by simp
    finally show ?thesis by (simp only: c2)
  qed
  note r = round_double_normal [OF qpos lo hi m fin]
  show ?thesis
  proof (cases "0 \<le> z")
    case True
    then have "(of_int z :: rat) = of_int a" by (simp add: a_def)
    with r(1) c2 show ?thesis by simp
  next
    case False
    then have "(of_int z :: rat) = - of_int a" by (simp add: a_def)
    with r(2) c2 show ?thesis by simp
  qed
qed

lemma double_add_int:
  "\<bar>a + b\<bar> \<le> 2 ^ 53 \<Longrightarrow>
   double_add (Finite (of_int a)) (Finite (of_int b)) = Finite (of_int (a + b))"
  using round_double_int [of "a + b"] by simp

lemma round_double_1: "round_double 1 = Finite 1"
  using round_double_int [of 1] by simp

lemma round_double_numeral:
  "(numeral n :: int) \<le> 9007199254740992 \<Longrightarrow> round_double (numeral n) = Finite (numeral n)"
  using round_double_int [of "numeral n"] by simp

lemma round_double_neg_numeral:
  "(numeral n :: int) \<le> 9007199254740992 \<Longrightarrow>
   round_double (- numeral n) = Finite (- numeral n)"
  using round_double_int [of "- numeral n"] by simp

lemma round_double_past_2_53: "round_double 9007199254740993 = Finite 9007199254740992"
proof -
  have f: "\<lfloor>(9007199254740993::rat) / 2\<rfloor> = 4503599627370496"
    by (rule floor_unique) simp_all
  have "(9007199254740993::rat) * 2 ^ 1074 / 2 ^ 1075 = 9007199254740993 / 2" by simp
  then have m: "round_half_even (9007199254740993 * 2 ^ 1074 / 2 ^ 1075) = 4503599627370496"
    by (simp only: round_half_even_def Let_def f) simp
  have "round_double 9007199254740993
      = Finite (of_int 4503599627370496 * 2 ^ 1075 / 2 ^ 1074)"
    by (rule round_double_normal(1) [where s = 1075, OF _ _ _ m]) simp_all
  then show ?thesis by simp
qed

lemma round_double_tenth: "round_double (1 / 10) = Finite (3602879701896397 / 2 ^ 55)"
proof -
  have f: "\<lfloor>(36028797018963968::rat) / 5\<rfloor> = 7205759403792793"
    by (rule floor_unique) simp_all
  have "(1::rat) / 10 * 2 ^ 1074 / 2 ^ 1018 = 36028797018963968 / 5" by simp
  then have m: "round_half_even (1 / 10 * 2 ^ 1074 / 2 ^ 1018) = 7205759403792794"
    by (simp only: round_half_even_def Let_def f) simp
  have "round_double (1 / 10) = Finite (of_int 7205759403792794 * 2 ^ 1018 / 2 ^ 1074)"
    by (rule round_double_normal(1) [where s = 1018, OF _ _ _ m]) simp_all
  then show ?thesis by simp
qed

lemma round_double_fifth: "round_double (1 / 5) = Finite (3602879701896397 / 2 ^ 54)"
proof -
  have f: "\<lfloor>(36028797018963968::rat) / 5\<rfloor> = 7205759403792793"
    by (rule floor_unique) simp_all
  have "(1::rat) / 5 * 2 ^ 1074 / 2 ^ 1019 = 36028797018963968 / 5" by simp
  then have m: "round_half_even (1 / 5 * 2 ^ 1074 / 2 ^ 1019) = 7205759403792794"
    by (simp only: round_half_even_def Let_def f) simp
  have "round_double (1 / 5) = Finite (of_int 7205759403792794 * 2 ^ 1019 / 2 ^ 1074)"
    by (rule round_double_normal(1) [where s = 1019, OF _ _ _ m]) simp_all
  then show ?thesis by simp
qed

lemma double_add_tenth_fifth:
  "double_add (Finite (3602879701896397 / 2 ^ 55)) (Finite (3602879701896397 / 2 ^ 54))
     = Finite (5404319552844596 / 2 ^ 54)"
proof -
  have sum: "(3602879701896397::rat) / 2 ^ 55 + 3602879701896397 / 2 ^ 54 = 10808639105689191 / 2 ^ 55"
    by simp
  have f: "\<lfloor>(10808639105689191::rat) / 2\<rfloor> = 5404319552844595"
    by (rule floor_unique) simp_all
  have "(10808639105689191::rat) / 2 ^ 55 * 2 ^ 1074 / 2 ^ 1020 = 10808639105689191 / 2"
    by simp
  then have m: "round_half_even (10808639105689191 / 2 ^ 55 * 2 ^ 1074 / 2 ^ 1020) = 5404319552844596"
    by (simp only: round_half_even_def Let_def f) simp
  have "round_double (10808639105689191 / 2 ^ 55)
      = Finite (of_int 5404319552844596 * 2 ^ 1020 / 2 ^ 1074)"
    by (rule round_double_normal(1) [where s = 1020, OF _ _ _ m]) simp_all
  then show ?thesis by (simp add: sum)
qed

lemma round_double_tenth_again:
  "round_double (3602879701896397 / 2 ^ 55) = Finite (3602879701896397 / 2 ^ 55)"
proof -
  have "(3602879701896397::rat) / 2 ^ 55 * 2 ^ 1074 / 2 ^ 1018 = of_int 7205759403792794"
    by simp
  then have m: "round_half_even (3602879701896397 / 2 ^ 55 * 2 ^ 1074 / 2 ^ 1018)
      = 7205759403792794"
    by (simp only: round_half_even_int)
  have "round_double (3602879701896397 / 2 ^ 55)
      = Finite (of_int 7205759403792794 * 2 ^ 1018 / 2 ^ 1074)"
    by (rule round_double_normal(1) [where s = 1018, OF _ _ _ m]) simp_all
  then show ?thesis by simp
qed


section \<open>Facts about the handlers\<close>

lemma user_created:
  assumes "k \<noteq> []" and "e \<noteq> []"
    and "k \<notin> set (map uid (users s))" and "e \<notin> set (map email (users s))"
  shows "post_api_users \<lparr>body_uid = Some k, body_name = n, body_email = Some e\<rparr> s =
           (send 201 (Message_user ''User created''
              \<lparr>u_id = fresh_oid (map u_id (users s)), uid = k, name = n, email = e, storageGB = Finite 0\<rparr>),
            s\<lparr>users := users s @
              [\<lparr>u_id = fresh_oid (map u_id (users s)), uid = k, name = n, email = e,
                storageGB = Finite 0\<rparr>]\<rparr>)"
  using assms find_None_key [of k uid "users s"]
  by (simp add: post_api_users_def falsy_string_def User_findOne_def User_save_def Let_def)


lemma user_email_taken:
  assumes "k \<noteq> []" and "e \<noteq> []"
    and "k \<notin> set (map uid (users s))" and "e \<in> set (map email (users s))"
  shows "post_api_users \<lparr>body_uid = Some k, body_name = n, body_email = Some e\<rparr> s =
           (send 500 (Error_message DuplicateKey), s)"
  using assms find_None_key [of k uid "users s"]
  by (simp add: post_api_users_def falsy_string_def User_findOne_def User_save_def)

lemma storage_found:
  assumes "users_unique (users s)" and "u \<in> set (users s)"
    and "body_storageGB req = Some (JNum q)"
  shows "put_api_users_uid_storage (uid u) req s =
           (send 200 (Message_user ''Storage updated''
              (u\<lparr>storageGB := double_add (storageGB u) (round_double q)\<rparr>)),
            s\<lparr>users := map (\<lambda>x. if x = u
                             then x\<lparr>storageGB := double_add (storageGB x) (round_double q)\<rparr>
                             else x) (users s)\<rparr>)"
  using assms
  by (simp add: put_api_users_uid_storage_def User_findOneAndUpdate_inc_def users_unique_def
      find_distinct_key update_first_distinct_key)

lemma storage_not_number:
  "\<not> typeof_number (body_storageGB req) \<Longrightarrow>
   put_api_users_uid_storage k req s = (send 400 (Error_text ''storageGB must be a number''), s)"
  by (cases "body_storageGB req" rule: typeof_number.cases)
     (simp_all add: put_api_users_uid_storage_def)

lemma payment_saved:
  assumes "k \<noteq> []" and "round_double g \<noteq> Finite 0" and "round_double t \<noteq> Finite 0"
    and "l \<noteq> []"
  shows "post_api_payments js now
           \<lparr>body_userId = Some (JStr k), body_gb = Some (JNum g),
            body_totalPrice = Some (JNum t), body_upiLink = Some (JStr l)\<rparr> s =
         (send 201 (Payment_json
            \<lparr>p_id = fresh_oid (map p_id (payments s)), userId = k, gb = round_double g,
             totalPrice = round_double t, upiLink = l, status = ''PENDING'', createdAt = now\<rparr>),
          s\<lparr>payments := payments s @
            [\<lparr>p_id = fresh_oid (map p_id (payments s)), userId = k, gb = round_double g,
              totalPrice = round_double t, upiLink = l, status = ''PENDING'',
              createdAt = now\<rparr>]\<rparr>)"
  using assms by (simp add: post_api_payments_def Payment_save_def Let_def)




lemma status_set:
  assumes "distinct (map p_id (payments s))" and "p \<in> set (payments s)"
    and "castObjectId i = Some (p_id p)"
  shows "put_api_payments_id i \<lparr>body_status = Some v\<rparr> s =
           (send 200 (Payment_json (p\<lparr>status := v\<rparr>)),
            s\<lparr>payments := map (\<lambda>x. if x = p then x\<lparr>status := v\<rparr> else x) (payments s)\<rparr>)"
  using assms
  by (simp add: put_api_payments_id_def Payment_findByIdAndUpdate_def find_distinct_key
      update_first_distinct_key)

subsection \<open>The unique indexes are kept\<close>

lemma users_unique_storage_map:
  "users_unique us \<Longrightarrow>
   users_unique (map (\<lambda>x. if x = u then x\<lparr>storageGB := f x\<rparr> else x) us)"
proof -
  have "map uid (map (\<lambda>x. if x = u then x\<lparr>storageGB := f x\<rparr> else x) us) = map uid us"
    by (induction us) auto
  moreover
  have "map email (map (\<lambda>x. if x = u then x\<lparr>storageGB := f x\<rparr> else x) us) = map email us"
    by (induction us) auto
  ultimately show "users_unique us \<Longrightarrow> ?thesis"
    by (simp only: users_unique_def)
qed

lemma users_unique_inc:
  "users_unique us \<Longrightarrow> users_unique (snd (User_findOneAndUpdate_inc k d us))"
  by (simp add: User_findOneAndUpdate_inc_def users_unique_def map_update_first
      split: option.split)

lemma users_unique_storage:
  "users_unique (users s) \<Longrightarrow> users_unique (users (snd (put_api_users_uid_storage k req s)))"
proof (cases "typeof_number (body_storageGB req)")
  case True
  assume inv: "users_unique (users s)"
  from True obtain d where d: "body_storageGB req = Some (JNum d)"
    by (cases "body_storageGB req" rule: typeof_number.cases) simp_all
  show ?thesis
    using users_unique_inc [OF inv, of k "round_double d"] inv
    by (auto simp: put_api_users_uid_storage_def d split: prod.split option.split)
next
  case False
  assume "users_unique (users s)"
  with False show ?thesis by (simp add: storage_not_number)
qed

lemma users_unique_save:
  "users_unique us \<Longrightarrow> User_save k n e us = Inr (u, us') \<Longrightarrow> users_unique us'"
  by (auto simp: User_save_def users_unique_def Let_def split: option.splits if_splits)

lemma users_unique_post_users:
  "users_unique (users s) \<Longrightarrow> users_unique (users (snd (post_api_users req s)))"
  by (auto simp: post_api_users_def split: option.split sum.split dest: users_unique_save)

lemma users_same_post_payments: "users (snd (post_api_payments js now req s)) = users s"
  by (simp add: post_api_payments_def split: sum.split prod.split)

lemma users_same_put_payments: "users (snd (put_api_payments_id i req s)) = users s"
  by (simp add: put_api_payments_id_def split: sum.split prod.split option.split)

lemma reachable_users_unique: "reachable s \<Longrightarrow> users_unique (users s)"
proof (induction rule: reachable.induct)
  case start
  show ?case by (simp add: empty_store_def users_unique_def)
next
  case (post_users s req)
  then show ?case by (simp add: users_unique_post_users)
next
  case (get_user s k)
  then show ?case by (simp add: get_api_users_uid_def split: option.split)
next
  case (put_storage s k sreq)
  then show ?case by (simp add: users_unique_storage)
next
  case (post_payments s js now preq)
  then show ?case by (simp add: users_same_post_payments)
next
  case (get_payments s)
  then show ?case by (simp add: get_api_payments_def)
next
  case (put_payment s i treq)
  then show ?case by (simp add: users_same_put_payments)
qed

lemma Payment_save_appends:
  "Payment_save js now k g t l ps = Inr (p, ps') \<Longrightarrow>
   ps' = ps @ [p] \<and> p_id p = fresh_oid (map p_id ps)"
  by (auto simp: Payment_save_def Let_def split: sum.splits option.splits if_splits)

lemma payment_ids_post_payments:
  assumes "distinct (map p_id (payments s))"
  shows "distinct (map p_id (payments (snd (post_api_payments js now req s))))"
proof (cases "Payment_save js now (body_userId req) (body_gb req) (body_totalPrice req)
    (body_upiLink req) (payments s)")
  case (Inl err)
  with assms show ?thesis by (simp add: post_api_payments_def)
next
  case (Inr r)
  obtain p ps' where r: "r = (p, ps')" by (cases r)
  from Inr r have "ps' = payments s @ [p] \<and> p_id p = fresh_oid (map p_id (payments s))"
    by (simp add: Payment_save_appends)
  with assms Inr r fresh_oid_new [of "map p_id (payments s)"] show ?thesis
    by (simp add: post_api_payments_def)
qed

lemma reachable_payment_ids: "reachable s \<Longrightarrow> distinct (map p_id (payments s))"
proof (induction rule: reachable.induct)
  case start
  show ?case by (simp add: empty_store_def)
next
  case (post_users s req)
  then show ?case
    by (simp add: post_api_users_def split: option.split sum.split prod.split)
next
  case (get_user s k)
  then show ?case by (simp add: get_api_users_uid_def split: option.split)
next
  case (put_storage s k sreq)
  then show ?case
    by (simp add: put_api_users_uid_storage_def split: option.split json.split prod.split)
next
  case (post_payments s js now preq)
  then show ?case by (simp add: payment_ids_post_payments)
next
  case (get_payments s)
  then show ?case by (simp add: get_api_payments_def)
next
  case (put_payment s i treq)
  then show ?case
    by (auto simp: put_api_payments_id_def Payment_findByIdAndUpdate_def map_update_first
        split: option.splits)
qed

section \<open>Users\<close>




text \<open>
  C8. A body without \<^verbatim>\<open>uid\<close> or without \<^verbatim>\<open>email\<close> is answered 400 with the store as before,
  whatever the store holds.
\<close>

theorem create_user_requires_uid_and_email:
  "body_uid req = None \<or> body_email req = None \<Longrightarrow>
   post_api_users req s = (send 400 (Error_text ''UID and email are required''), s)"
  by (auto simp: post_api_users_def falsy_string_def)

theorem create_user_requires_uid_and_email_witness:
  "body_email \<lparr>body_uid = Some ''u1'', body_name = Some ''Ann'', body_email = None\<rparr> = None
   \<and> post_api_users \<lparr>body_uid = Some ''u1'', body_name = Some ''Ann'', body_email = None\<rparr> empty_store
       = (send 400 (Error_text ''UID and email are required''), empty_store)"
  using create_user_requires_uid_and_email
    [of "\<lparr>body_uid = Some ''u1'', body_name = Some ''Ann'', body_email = None\<rparr>" empty_store]
  by simp

text \<open>
  C6. In every store the server can reach, no two users share a \<^verbatim>\<open>uid\<close> and no two share an
  \<^verbatim>\<open>email\<close>; each of the six routes, on any request, keeps this. Creating a user and then a
  second one with another \<^verbatim>\<open>uid\<close> and the same \<^verbatim>\<open>email\<close> answers 201 and then 500 with the
  duplicate-key failure; the second call stores nothing, and exactly one user has that
  \<^verbatim>\<open>email\<close>.
\<close>

theorem uid_and_email_unique:
  "(reachable s0 \<longrightarrow> users_unique (users s0))
   \<and> (users_unique (users s) \<longrightarrow>
        users_unique (users (snd (post_api_users ureq s)))
      \<and> users_unique (users (snd (get_api_users_uid k s)))
      \<and> users_unique (users (snd (put_api_users_uid_storage k sreq s)))
      \<and> users_unique (users (snd (post_api_payments js now preq s)))
      \<and> users_unique (users (snd (get_api_payments s)))
      \<and> users_unique (users (snd (put_api_payments_id i treq s))))
   \<and> (k1 \<noteq> [] \<and> k2 \<noteq> [] \<and> k1 \<noteq> k2 \<and> e \<noteq> []
        \<and> k1 \<notin> set (map uid (users s)) \<and> k2 \<notin> set (map uid (users s))
        \<and> e \<notin> set (map email (users s)) \<longrightarrow>
       (let r1 = post_api_users \<lparr>body_uid = Some k1, body_name = n1, body_email = Some e\<rparr> s;
            r2 = post_api_users \<lparr>body_uid = Some k2, body_name = n2, body_email = Some e\<rparr> (snd r1)
        in status_code (fst r1) = 201
           \<and> fst r2 = send 500 (Error_message DuplicateKey)
           \<and> snd r2 = snd r1
           \<and> length (filter (\<lambda>u. email u = e) (users (snd r2))) = 1))"
proof (intro conjI impI)
  assume "reachable s0"
  then show "users_unique (users s0)" by (rule reachable_users_unique)
next
  assume inv: "users_unique (users s)"
  show "users_unique (users (snd (post_api_users ureq s)))"
    using inv by (rule users_unique_post_users)
  show "users_unique (users (snd (get_api_users_uid k s)))"
    using inv by (simp add: get_api_users_uid_def split: option.split)
  show "users_unique (users (snd (put_api_users_uid_storage k sreq s)))"
    using inv by (rule users_unique_storage)
  show "users_unique (users (snd (post_api_payments js now preq s)))"
    using inv by (simp add: users_same_post_payments)
  show "users_unique (users (snd (get_api_payments s)))"
    using inv by (simp add: get_api_payments_def)
  show "users_unique (users (snd (put_api_payments_id i treq s)))"
    using inv by (simp add: users_same_put_payments)
next
  assume a: "k1 \<noteq> [] \<and> k2 \<noteq> [] \<and> k1 \<noteq> k2 \<and> e \<noteq> []
        \<and> k1 \<notin> set (map uid (users s)) \<and> k2 \<notin> set (map uid (users s))
        \<and> e \<notin> set (map email (users s))"
  define u where "u = \<lparr>u_id = fresh_oid (map u_id (users s)), uid = k1, name = n1, email = e,
                  storageGB = Finite 0\<rparr>"
  define s1 where "s1 = s\<lparr>users := users s @ [u]\<rparr>"
  have first: "post_api_users \<lparr>body_uid = Some k1, body_name = n1, body_email = Some e\<rparr> s =
      (send 201 (Message_user ''User created'' u), s1)"
    using a by (simp add: user_created u_def s1_def)
  have "k2 \<notin> set (map uid (users s1))" and "e \<in> set (map email (users s1))"
    using a by (auto simp: s1_def u_def)
  with a have second: "post_api_users \<lparr>body_uid = Some k2, body_name = n2, body_email = Some e\<rparr> s1 =
      (send 500 (Error_message DuplicateKey), s1)"
    by (simp add: user_email_taken)
  have once: "length (filter (\<lambda>u. email u = e) (users s1)) = 1"
    using a by (simp add: s1_def u_def filter_key_absent)
  from first second once
  show "let r1 = post_api_users \<lparr>body_uid = Some k1, body_name = n1, body_email = Some e\<rparr> s;
            r2 = post_api_users \<lparr>body_uid = Some k2, body_name = n2, body_email = Some e\<rparr> (snd r1)
        in status_code (fst r1) = 201
           \<and> fst r2 = send 500 (Error_message DuplicateKey)
           \<and> snd r2 = snd r1
           \<and> length (filter (\<lambda>u. email u = e) (users (snd r2))) = 1"
    by (simp add: Let_def send_def)
qed

theorem uid_and_email_unique_witness:
  "reachable (snd (post_api_users
      \<lparr>body_uid = Some ''u0'', body_name = None, body_email = Some ''zoe@example.com''\<rparr> empty_store))
   \<and> users_unique (users (snd (post_api_users
      \<lparr>body_uid = Some ''u0'', body_name = None, body_email = Some ''zoe@example.com''\<rparr> empty_store)))
   \<and> users_unique (users \<lparr>users = [\<lparr>u_id = 1, uid = ''u0'', name = None, email = ''zoe@example.com'',
                                  storageGB = Finite 3\<rparr>], payments = []\<rparr>)
   \<and> fst (post_api_users \<lparr>body_uid = Some ''u2'', body_name = Some ''Bob'', body_email = Some ''ann@example.com''\<rparr>
       (snd (post_api_users \<lparr>body_uid = Some ''u1'', body_name = Some ''Ann'', body_email = Some ''ann@example.com''\<rparr>
          \<lparr>users = [\<lparr>u_id = 1, uid = ''u0'', name = None, email = ''zoe@example.com'',
                     storageGB = Finite 3\<rparr>], payments = []\<rparr>)))
     = send 500 (Error_message DuplicateKey)
   \<and> users (snd (post_api_users \<lparr>body_uid = Some ''u2'', body_name = Some ''Bob'', body_email = Some ''ann@example.com''\<rparr>
       (snd (post_api_users \<lparr>body_uid = Some ''u1'', body_name = Some ''Ann'', body_email = Some ''ann@example.com''\<rparr>
          \<lparr>users = [\<lparr>u_id = 1, uid = ''u0'', name = None, email = ''zoe@example.com'',
                     storageGB = Finite 3\<rparr>], payments = []\<rparr>))))
     = [\<lparr>u_id = 1, uid = ''u0'', name = None, email = ''zoe@example.com'', storageGB = Finite 3\<rparr>,
        \<lparr>u_id = 2, uid = ''u1'', name = Some ''Ann'', email = ''ann@example.com'', storageGB = Finite 0\<rparr>]
   \<and> users_unique (users (snd (post_api_users \<lparr>body_uid = Some ''u1'', body_name = Some ''Ann'', body_email = Some ''ann@example.com''\<rparr>
          \<lparr>users = [\<lparr>u_id = 1, uid = ''u0'', name = None, email = ''zoe@example.com'',
                     storageGB = Finite 3\<rparr>], payments = []\<rparr>)))"
proof -
  let ?s = "\<lparr>users = [\<lparr>u_id = 1, uid = ''u0'', name = None, email = ''zoe@example.com'',
                     storageGB = Finite 3\<rparr>], payments = []\<rparr>"
  let ?r0 = "\<lparr>body_uid = Some ''u0'', body_name = None, body_email = Some ''zoe@example.com''\<rparr>"
  let ?r1 = "\<lparr>body_uid = Some ''u1'', body_name = Some ''Ann'', body_email = Some ''ann@example.com''\<rparr>"
  have r: "reachable (snd (post_api_users ?r0 empty_store))"
    by (intro reachable.intros)
  have h: "users_unique (users ?s)" by (simp add: users_unique_def)
  show ?thesis
    using r h uid_and_email_unique [of "snd (post_api_users ?r0 empty_store)" ?s ?r1 "''u1''" "\<lparr>body_storageGB = None\<rparr>"
        "\<lparr>Number_of_string = (\<lambda>s. NaN), String_of_number = (\<lambda>n. [])\<rparr>" 0
        "\<lparr>body_userId = None, body_gb = None, body_totalPrice = None, body_upiLink = None\<rparr>"
        "''abc''" "\<lparr>body_status = None\<rparr>" "''u1''" "''u2''" "''ann@example.com''"
        "Some ''Ann''" "Some ''Bob''"]
    by (simp add: Let_def post_api_users_def falsy_string_def User_findOne_def User_save_def
        fresh_oid_def numeral_2_eq_2 users_unique_def)
qed

section \<open>Storage of a user\<close>

text \<open>
  C1, as the code has it. For every user of a store with unique \<^verbatim>\<open>uid\<close>s and \<^verbatim>\<open>email\<close>s
  (every store the server reaches is one) and every number \<open>d\<close>, positive or negative, the
  storage route on that user's \<^verbatim>\<open>uid\<close> answers 200 with the user whose \<^verbatim>\<open>storageGB\<close> is the sum,
  as doubles add, of the stored value and \<open>d\<close>, and stores exactly that user in place of the
  old one: the amount is added, not set, and no bound is applied. The sum is the exact one
  whenever the stored value and \<open>d\<close> are whole numbers and \<open>d\<close> and the sum are at most \<open>2 ^ 53\<close>
  in magnitude. Starting from 0, the adjustments +5, +5 and -3 leave 7.
\<close>

theorem adjust_storage_additive:
  assumes "users_unique (users s)" and "u \<in> set (users s)"
  shows "put_api_users_uid_storage (uid u) \<lparr>body_storageGB = Some (JNum q)\<rparr> s =
           (send 200 (Message_user ''Storage updated''
              (u\<lparr>storageGB := double_add (storageGB u) (round_double q)\<rparr>)),
            s\<lparr>users := map (\<lambda>x. if x = u then x\<lparr>storageGB := double_add (storageGB x) (round_double q)\<rparr> else x)
                          (users s)\<rparr>)
         \<and> (storageGB u = Finite (of_int a) \<and> q = of_int b \<and> \<bar>b\<bar> \<le> 2 ^ 53 \<and> \<bar>a + b\<bar> \<le> 2 ^ 53 \<longrightarrow>
              double_add (storageGB u) (round_double q) = Finite (of_int a + of_int b))
         \<and> (storageGB u = Finite 0 \<longrightarrow>
              (let s1 = snd (put_api_users_uid_storage (uid u)
                          \<lparr>body_storageGB = Some (JNum 5)\<rparr> s);
                   s2 = snd (put_api_users_uid_storage (uid u)
                          \<lparr>body_storageGB = Some (JNum 5)\<rparr> s1);
                   r3 = put_api_users_uid_storage (uid u)
                          \<lparr>body_storageGB = Some (JNum (- 3))\<rparr> s2
               in fst r3 = send 200 (Message_user ''Storage updated'' (u\<lparr>storageGB := Finite 7\<rparr>))
                  \<and> get_api_users_uid (uid u) (snd r3) =
                      (send 200 (User_json (u\<lparr>storageGB := Finite 7\<rparr>)), snd r3)))"
proof (intro conjI impI)
  show "put_api_users_uid_storage (uid u) \<lparr>body_storageGB = Some (JNum q)\<rparr> s =
           (send 200 (Message_user ''Storage updated''
              (u\<lparr>storageGB := double_add (storageGB u) (round_double q)\<rparr>)),
            s\<lparr>users := map (\<lambda>x. if x = u then x\<lparr>storageGB := double_add (storageGB x) (round_double q)\<rparr> else x)
                          (users s)\<rparr>)"
    using assms by (simp add: storage_found)
next
  assume "storageGB u = Finite (of_int a) \<and> q = of_int b \<and> \<bar>b\<bar> \<le> 2 ^ 53 \<and> \<bar>a + b\<bar> \<le> 2 ^ 53"
  then show "double_add (storageGB u) (round_double q) = Finite (of_int a + of_int b)"
    using double_add_int [of a b] round_double_int [of b] by simp
next
  assume zero: "storageGB u = Finite 0"
  have step: "\<And>t v e. users_unique (users t) \<Longrightarrow> v \<in> set (users t) \<Longrightarrow>
      (let t' = snd (put_api_users_uid_storage (uid v) \<lparr>body_storageGB = Some (JNum e)\<rparr> t);
           v' = v\<lparr>storageGB := double_add (storageGB v) (round_double e)\<rparr>
       in fst (put_api_users_uid_storage (uid v) \<lparr>body_storageGB = Some (JNum e)\<rparr> t) =
            send 200 (Message_user ''Storage updated'' v')
          \<and> users_unique (users t') \<and> v' \<in> set (users t') \<and> uid v' = uid v)"
    by (simp add: storage_found users_unique_storage_map Let_def)
  define s1 where "s1 = snd (put_api_users_uid_storage (uid u)
                          \<lparr>body_storageGB = Some (JNum 5)\<rparr> s)"
  define s2 where "s2 = snd (put_api_users_uid_storage (uid u)
                          \<lparr>body_storageGB = Some (JNum 5)\<rparr> s1)"
  define r3 where "r3 = put_api_users_uid_storage (uid u)
                          \<lparr>body_storageGB = Some (JNum (- 3))\<rparr> s2"
  define u1 where "u1 = u\<lparr>storageGB := Finite 5\<rparr>"
  define u2 where "u2 = u\<lparr>storageGB := Finite 10\<rparr>"
  define u3 where "u3 = u\<lparr>storageGB := Finite 7\<rparr>"
  have a1: "users_unique (users s1) \<and> u1 \<in> set (users s1) \<and> uid u1 = uid u"
    using step [OF assms, of 5] zero
    by (simp add: Let_def s1_def u1_def round_double_numeral)
  then have a2: "users_unique (users s2) \<and> u2 \<in> set (users s2) \<and> uid u2 = uid u"
    using step [of s1 u1 5]
    by (simp add: Let_def s2_def u1_def u2_def round_double_numeral)
  then have a3: "fst r3 = send 200 (Message_user ''Storage updated'' u3)
      \<and> users_unique (users (snd r3)) \<and> u3 \<in> set (users (snd r3)) \<and> uid u3 = uid u"
    using step [of s2 u2 "- 3"]
    by (simp add: Let_def r3_def u2_def u3_def round_double_numeral round_double_neg_numeral)
  then have "get_api_users_uid (uid u) (snd r3) = (send 200 (User_json u3), snd r3)"
    using find_distinct_key [of uid "users (snd r3)" u3]
    by (simp add: get_api_users_uid_def User_findOne_def users_unique_def)
  with a3 show "let s1 = snd (put_api_users_uid_storage (uid u)
                          \<lparr>body_storageGB = Some (JNum 5)\<rparr> s);
                   s2 = snd (put_api_users_uid_storage (uid u)
                          \<lparr>body_storageGB = Some (JNum 5)\<rparr> s1);
                   r3 = put_api_users_uid_storage (uid u)
                          \<lparr>body_storageGB = Some (JNum (- 3))\<rparr> s2
               in fst r3 = send 200 (Message_user ''Storage updated'' (u\<lparr>storageGB := Finite 7\<rparr>))
                  \<and> get_api_users_uid (uid u) (snd r3) =
                      (send 200 (User_json (u\<lparr>storageGB := Finite 7\<rparr>)), snd r3)"
    by (simp add: Let_def s1_def s2_def r3_def u3_def)
qed

theorem adjust_storage_additive_witness:
  "users_unique [\<lparr>u_id = 1, uid = ''u1'', name = Some ''Ann'', email = ''ann@example.com'',
                   storageGB = Finite 0\<rparr>]
   \<and> \<bar>5 :: int\<bar> \<le> 2 ^ 53 \<and> \<bar>0 + 5 :: int\<bar> \<le> 2 ^ 53
   \<and> double_add (Finite (of_int 0)) (round_double (of_int 5)) = Finite (of_int 0 + of_int 5)
   \<and> fst (put_api_users_uid_storage ''u1'' \<lparr>body_storageGB = Some (JNum (- 3))\<rparr>
         (snd (put_api_users_uid_storage ''u1'' \<lparr>body_storageGB = Some (JNum 5)\<rparr>
           (snd (put_api_users_uid_storage ''u1'' \<lparr>body_storageGB = Some (JNum 5)\<rparr>
             \<lparr>users = [\<lparr>u_id = 1, uid = ''u1'', name = Some ''Ann'', email = ''ann@example.com'',
                         storageGB = Finite 0\<rparr>],
              payments = []\<rparr>))))) =
       send 200 (Message_user ''Storage updated''
         \<lparr>u_id = 1, uid = ''u1'', name = Some ''Ann'', email = ''ann@example.com'',
          storageGB = Finite 7\<rparr>)"
proof -
  let ?u = "\<lparr>u_id = 1, uid = ''u1'', name = Some ''Ann'', email = ''ann@example.com'',
             storageGB = Finite 0\<rparr>"
  let ?s = "\<lparr>users = [?u], payments = []\<rparr>"
  have h1: "users_unique (users ?s)" by (simp add: users_unique_def)
  have h2: "?u \<in> set (users ?s)" by simp
  show ?thesis
    using h1 adjust_storage_additive [OF h1 h2, of 5 0 5]
    by (simp add: Let_def put_api_users_uid_storage_def User_findOneAndUpdate_inc_def
        round_double_numeral round_double_neg_numeral)
qed

text \<open>
  With the stored value plus \<open>d\<close> promised exactly for every \<open>d\<close>, the property fails: a user
  whose \<^verbatim>\<open>storageGB\<close> is \<open>2 ^ 53\<close>, adjusted by 1, is answered with \<open>2 ^ 53\<close> again, the double
  nearest to the sum; and a user at 0, adjusted by 0.1 and then by 0.2, is answered with
  0.30000000000000004, which is not the sum of the two doubles added.
\<close>

theorem adjust_storage_rounding_counterexample:
  "fst (put_api_users_uid_storage ''u1'' \<lparr>body_storageGB = Some (JNum 1)\<rparr>
      \<lparr>users = [\<lparr>u_id = 1, uid = ''u1'', name = Some ''Ann'', email = ''ann@example.com'',
                  storageGB = Finite 9007199254740992\<rparr>],
       payments = []\<rparr>) =
     send 200 (Message_user ''Storage updated''
       \<lparr>u_id = 1, uid = ''u1'', name = Some ''Ann'', email = ''ann@example.com'',
        storageGB = Finite 9007199254740992\<rparr>)
   \<and> Finite 9007199254740992 \<noteq> Finite (9007199254740992 + 1)
   \<and> fst (put_api_users_uid_storage ''u1'' \<lparr>body_storageGB = Some (JNum (1 / 5))\<rparr>
        (snd (put_api_users_uid_storage ''u1'' \<lparr>body_storageGB = Some (JNum (1 / 10))\<rparr>
          \<lparr>users = [\<lparr>u_id = 1, uid = ''u1'', name = Some ''Ann'', email = ''ann@example.com'',
                      storageGB = Finite 0\<rparr>],
           payments = []\<rparr>))) =
     send 200 (Message_user ''Storage updated''
       \<lparr>u_id = 1, uid = ''u1'', name = Some ''Ann'', email = ''ann@example.com'',
        storageGB = Finite (5404319552844596 / 2 ^ 54)\<rparr>)
   \<and> Finite (5404319552844596 / 2 ^ 54)
       \<noteq> Finite (3602879701896397 / 2 ^ 55 + 3602879701896397 / 2 ^ 54)"
proof -
  have big: "double_add (Finite 9007199254740992) (round_double 1) = Finite 9007199254740992"
    by (simp add: round_double_1 round_double_past_2_53)
  have first: "double_add (Finite 0) (round_double (1 / 10)) = Finite (3602879701896397 / 2 ^ 55)"
    by (simp only: round_double_tenth double_add.simps add_0 round_double_tenth_again)
  have second: "double_add (Finite (3602879701896397 / 2 ^ 55)) (round_double (1 / 5))
      = Finite (5404319552844596 / 2 ^ 54)"
    by (simp only: round_double_fifth double_add_tenth_fifth)
  have first': "double_add (Finite 0) (round_double (1 / 10))
      = Finite (3602879701896397 / 36028797018963968)"
    using first by simp
  have second': "double_add (Finite (3602879701896397 / 36028797018963968)) (round_double (1 / 5))
      = Finite (1351079888211149 / 4503599627370496)"
    using second by simp
  show ?thesis
    by (simp add: put_api_users_uid_storage_def User_findOneAndUpdate_inc_def
        big first' second' del: double_add.simps)
qed

text \<open>
  C5. A request whose \<^verbatim>\<open>storageGB\<close> is not a number (absent, \<^verbatim>\<open>null\<close>, a boolean, a string, an
  array or an object) is answered 400 and the store is as before, whatever it holds. A
  numeric amount for a \<^verbatim>\<open>uid\<close> that no stored user has is answered 404 and the store is as
  before: no user is created.
\<close>

theorem adjust_storage_rejects:
  "(\<not> typeof_number (body_storageGB req) \<longrightarrow>
      put_api_users_uid_storage k req s =
        (send 400 (Error_text ''storageGB must be a number''), s))
   \<and> (k \<notin> set (map uid (users s)) \<longrightarrow>
      put_api_users_uid_storage k \<lparr>body_storageGB = Some (JNum d)\<rparr> s =
        (send 404 (Error_text ''User not found''), s))"
  by (simp add: storage_not_number)
     (simp add: put_api_users_uid_storage_def User_findOneAndUpdate_inc_def find_None_key)

theorem adjust_storage_rejects_witness:
  "\<not> typeof_number (body_storageGB \<lparr>body_storageGB = Some (JStr ''5'')\<rparr>)
   \<and> ''u2'' \<notin> set (map uid (users \<lparr>users = [\<lparr>u_id = 1, uid = ''u1'', name = None, email = ''a@example.com'', storageGB = Finite 0\<rparr>], payments = []\<rparr>))
   \<and> put_api_users_uid_storage ''u1'' \<lparr>body_storageGB = Some (JStr ''5'')\<rparr>
         \<lparr>users = [\<lparr>u_id = 1, uid = ''u1'', name = None, email = ''a@example.com'', storageGB = Finite 0\<rparr>], payments = []\<rparr>
       = (send 400 (Error_text ''storageGB must be a number''),
          \<lparr>users = [\<lparr>u_id = 1, uid = ''u1'', name = None, email = ''a@example.com'', storageGB = Finite 0\<rparr>], payments = []\<rparr>)
   \<and> put_api_users_uid_storage ''u2'' \<lparr>body_storageGB = Some (JNum 4)\<rparr>
         \<lparr>users = [\<lparr>u_id = 1, uid = ''u1'', name = None, email = ''a@example.com'', storageGB = Finite 0\<rparr>], payments = []\<rparr>
       = (send 404 (Error_text ''User not found''),
          \<lparr>users = [\<lparr>u_id = 1, uid = ''u1'', name = None, email = ''a@example.com'', storageGB = Finite 0\<rparr>], payments = []\<rparr>)"
  using adjust_storage_rejects [of "\<lparr>body_storageGB = Some (JStr ''5'')\<rparr>" "''u1''"
      "\<lparr>users = [\<lparr>u_id = 1, uid = ''u1'', name = None, email = ''a@example.com'', storageGB = Finite 0\<rparr>], payments = []\<rparr>"]
    adjust_storage_rejects [of "\<lparr>body_storageGB = Some (JStr ''5'')\<rparr>" "''u2''"
      "\<lparr>users = [\<lparr>u_id = 1, uid = ''u1'', name = None, email = ''a@example.com'', storageGB = Finite 0\<rparr>], payments = []\<rparr>" 4]
  by simp

text \<open>
  C10. For every stored user and every request body, the storage route on that user's
  \<^verbatim>\<open>uid\<close> leaves the payments as they are and keeps the users position by position: each
  user keeps its identifier, \<^verbatim>\<open>uid\<close>, \<^verbatim>\<open>name\<close> and \<^verbatim>\<open>email\<close>, and every user other than the
  addressed one is unchanged altogether.
\<close>

theorem adjust_storage_frame:
  assumes "users_unique (users s)" and "u \<in> set (users s)"
  shows "payments (snd (put_api_users_uid_storage (uid u) req s)) = payments s
         \<and> list_all2
              (\<lambda>x y. u_id y = u_id x \<and> uid y = uid x \<and> name y = name x \<and> email y = email x
                     \<and> (x \<noteq> u \<longrightarrow> y = x))
              (users s) (users (snd (put_api_users_uid_storage (uid u) req s)))"
proof (cases "typeof_number (body_storageGB req)")
  case True
  then obtain d where "body_storageGB req = Some (JNum d)"
    by (cases "body_storageGB req" rule: typeof_number.cases) simp_all
  with assms show ?thesis
    by (simp add: storage_found list_all2_map2 list_all2_same)
next
  case False
  then show ?thesis
    by (simp add: storage_not_number list_all2_same)
qed

theorem adjust_storage_frame_witness:
  "users_unique [\<lparr>u_id = 1, uid = ''u1'', name = Some ''Ann'', email = ''a@example.com'', storageGB = Finite 2\<rparr>,
                  \<lparr>u_id = 2, uid = ''u2'', name = None, email = ''b@example.com'', storageGB = Finite 9\<rparr>]
   \<and> snd (put_api_users_uid_storage ''u1'' \<lparr>body_storageGB = Some (JNum 4)\<rparr>
        \<lparr>users = [\<lparr>u_id = 1, uid = ''u1'', name = Some ''Ann'', email = ''a@example.com'', storageGB = Finite 2\<rparr>,
                  \<lparr>u_id = 2, uid = ''u2'', name = None, email = ''b@example.com'', storageGB = Finite 9\<rparr>],
         payments = [\<lparr>p_id = 1, userId = ''u1'', gb = Finite 4, totalPrice = Finite 80, upiLink = ''upi://pay'',
                      status = ''PENDING'', createdAt = 1700000000000\<rparr>]\<rparr>)
     = \<lparr>users = [\<lparr>u_id = 1, uid = ''u1'', name = Some ''Ann'', email = ''a@example.com'', storageGB = Finite 6\<rparr>,
                 \<lparr>u_id = 2, uid = ''u2'', name = None, email = ''b@example.com'', storageGB = Finite 9\<rparr>],
        payments = [\<lparr>p_id = 1, userId = ''u1'', gb = Finite 4, totalPrice = Finite 80, upiLink = ''upi://pay'',
                      status = ''PENDING'', createdAt = 1700000000000\<rparr>]\<rparr>"
proof -
  let ?u = "\<lparr>u_id = 1, uid = ''u1'', name = Some ''Ann'', email = ''a@example.com'', storageGB = Finite 2\<rparr>"
  let ?v = "\<lparr>u_id = 2, uid = ''u2'', name = None, email = ''b@example.com'', storageGB = Finite 9\<rparr>"
  let ?s = "\<lparr>users = [?u, ?v],
             payments = [\<lparr>p_id = 1, userId = ''u1'', gb = Finite 4, totalPrice = Finite 80, upiLink = ''upi://pay'',
                      status = ''PENDING'', createdAt = 1700000000000\<rparr>]\<rparr>"
  have h1: "users_unique (users ?s)" by (simp add: users_unique_def)
  have h2: "?u \<in> set (users ?s)" by simp
  show ?thesis
    using h1 adjust_storage_frame [OF h1 h2, of "\<lparr>body_storageGB = Some (JNum 4)\<rparr>"]
    by (simp add: put_api_users_uid_storage_def User_findOneAndUpdate_inc_def
        round_double_numeral)
qed

section \<open>Payments\<close>

text \<open>
  The statements about creating a payment hold for whatever conversions the runtime has.
  Their instances below take conversions that read every string as NaN and print every
  number as the empty string; no body of these instances holds a string on a number path
  or a number on a string path, so none consults them.
\<close>




text \<open>
  C7, as the code has it. For a body whose four fields pass the handler's test and have
  the types of their schema paths, \<^verbatim>\<open>userId\<close> and \<^verbatim>\<open>upiLink\<close> strings, \<^verbatim>\<open>gb\<close> and \<^verbatim>\<open>totalPrice\<close>
  numbers, the answer is 201 with the created payment: \<^verbatim>\<open>userId\<close>, \<^verbatim>\<open>gb\<close>, \<^verbatim>\<open>totalPrice\<close> and
  \<^verbatim>\<open>upiLink\<close> as given (the numbers as the doubles they are read as), \<^verbatim>\<open>status\<close> \<^verbatim>\<open>PENDING\<close>, \<^verbatim>\<open>createdAt\<close> the clock reading at creation, and a
  generated identifier that no stored payment has; that same payment is stored after the
  others, so identifiers that were pairwise different stay so.
\<close>

theorem create_payment_record:
  assumes "k \<noteq> []" and "round_double g \<noteq> Finite 0" and "round_double t \<noteq> Finite 0"
    and "l \<noteq> []"
  shows "let p = \<lparr>p_id = fresh_oid (map p_id (payments s)), userId = k, gb = round_double g,
                  totalPrice = round_double t, upiLink = l, status = ''PENDING'',
                  createdAt = now\<rparr>
         in post_api_payments js now
              \<lparr>body_userId = Some (JStr k), body_gb = Some (JNum g),
               body_totalPrice = Some (JNum t), body_upiLink = Some (JStr l)\<rparr> s
              = (send 201 (Payment_json p), s\<lparr>payments := payments s @ [p]\<rparr>)
            \<and> p_id p \<notin> set (map p_id (payments s))
            \<and> (distinct (map p_id (payments s)) \<longrightarrow> distinct (map p_id (payments s @ [p])))"
  using assms fresh_oid_new [of "map p_id (payments s)"]
  by (simp add: payment_saved Let_def)

theorem create_payment_record_witness:
  "post_api_payments \<lparr>Number_of_string = (\<lambda>s. NaN), String_of_number = (\<lambda>n. [])\<rparr> 1700000000000
     \<lparr>body_userId = Some (JStr ''u1''), body_gb = Some (JNum 5),
      body_totalPrice = Some (JNum 100), body_upiLink = Some (JStr ''upi://x'')\<rparr>
     \<lparr>users = [], payments = [\<lparr>p_id = 1, userId = ''u0'', gb = Finite 2, totalPrice = Finite 40,
        upiLink = ''upi://w'', status = ''SUCCESS'', createdAt = 1600000000000\<rparr>]\<rparr>
   = (send 201 (Payment_json \<lparr>p_id = 2, userId = ''u1'', gb = Finite 5, totalPrice = Finite 100,
        upiLink = ''upi://x'', status = ''PENDING'', createdAt = 1700000000000\<rparr>),
      \<lparr>users = [], payments = [\<lparr>p_id = 1, userId = ''u0'', gb = Finite 2, totalPrice = Finite 40,
        upiLink = ''upi://w'', status = ''SUCCESS'', createdAt = 1600000000000\<rparr>,
        \<lparr>p_id = 2, userId = ''u1'', gb = Finite 5, totalPrice = Finite 100,
        upiLink = ''upi://x'', status = ''PENDING'', createdAt = 1700000000000\<rparr>]\<rparr>)"
proof -
  have h1: "''u1'' \<noteq> []" and h2: "round_double 5 \<noteq> Finite 0"
    and h3: "round_double 100 \<noteq> Finite 0" and h4: "''upi://x'' \<noteq> []"
    by (simp_all add: round_double_numeral)
  show ?thesis
    using create_payment_record [OF h1 h2 h3 h4, of
        "\<lparr>users = [], payments = [\<lparr>p_id = 1, userId = ''u0'', gb = Finite 2,
        totalPrice = Finite 40, upiLink = ''upi://w'', status = ''SUCCESS'',
        createdAt = 1600000000000\<rparr>]\<rparr>" 1700000000000
        "\<lparr>Number_of_string = (\<lambda>s. NaN), String_of_number = (\<lambda>n. [])\<rparr>"]
    by (simp add: Let_def fresh_oid_def numeral_2_eq_2 round_double_numeral)
qed

text \<open>
  With a created record promised for every body that passes the handler's test, the
  property fails: an object is truthy, and the body with \<^verbatim>\<open>totalPrice = {}\<close> passes the test,
  fails the cast to a number when the document is saved, and is answered 500 with nothing
  stored.
\<close>

theorem create_payment_truthy_object_counterexample:
  "\<not> falsy (Some (JStr ''u1'')) \<and> \<not> falsy (Some (JNum 5)) \<and> \<not> falsy (Some (JObj []))
   \<and> \<not> falsy (Some (JStr ''upi://x''))
   \<and> post_api_payments \<lparr>Number_of_string = (\<lambda>s. NaN), String_of_number = (\<lambda>n. [])\<rparr> 1700000000000
        \<lparr>body_userId = Some (JStr ''u1''), body_gb = Some (JNum 5),
         body_totalPrice = Some (JObj []), body_upiLink = Some (JStr ''upi://x'')\<rparr>
        empty_store
       = (send 500 (Error_message ValidationError), empty_store)"
  by (simp add: post_api_payments_def Payment_save_def round_double_numeral)

text \<open>
  C4, as the code has it. For every stored payment, addressed by the 24 hexadecimal digits
  of its identifier, and every status string, in the enumeration or not, the update route
  answers 200 with the payment whose \<^verbatim>\<open>status\<close> is that string, stores it in place of the old
  one, and the listing that follows shows it. A well-formed identifier that no stored
  payment has is answered 404 with the store as before. A route parameter that is not a
  well-formed identifier fails the cast to an ObjectId and is answered 500, the store as
  before.
\<close>

theorem update_payment_status:
  "(distinct (map p_id (payments s)) \<and> p \<in> set (payments s) \<and> castObjectId i = Some (p_id p) \<longrightarrow>
      put_api_payments_id i \<lparr>body_status = Some v\<rparr> s =
        (send 200 (Payment_json (p\<lparr>status := v\<rparr>)),
         s\<lparr>payments := map (\<lambda>x. if x = p then x\<lparr>status := v\<rparr> else x) (payments s)\<rparr>)
      \<and> fst (get_api_payments (snd (put_api_payments_id i \<lparr>body_status = Some v\<rparr> s))) =
          send 200 (Payments_json (map (\<lambda>x. if x = p then x\<lparr>status := v\<rparr> else x) (payments s))))
   \<and> (castObjectId i = Some k \<and> k \<notin> set (map p_id (payments s)) \<longrightarrow>
        put_api_payments_id i req s = (send 404 (Error_text ''Payment not found''), s))
   \<and> (castObjectId i = None \<longrightarrow>
        put_api_payments_id i req s = (send 500 (Error_message CastError), s))"
proof (intro conjI impI)
  assume a: "distinct (map p_id (payments s)) \<and> p \<in> set (payments s) \<and> castObjectId i = Some (p_id p)"
  then show eq: "put_api_payments_id i \<lparr>body_status = Some v\<rparr> s =
        (send 200 (Payment_json (p\<lparr>status := v\<rparr>)),
         s\<lparr>payments := map (\<lambda>x. if x = p then x\<lparr>status := v\<rparr> else x) (payments s)\<rparr>)"
    by (simp add: status_set)
  show "fst (get_api_payments (snd (put_api_payments_id i \<lparr>body_status = Some v\<rparr> s))) =
          send 200 (Payments_json (map (\<lambda>x. if x = p then x\<lparr>status := v\<rparr> else x) (payments s)))"
    by (simp add: eq get_api_payments_def Payment_find_def)
next
  assume "castObjectId i = Some k \<and> k \<notin> set (map p_id (payments s))"
  then show "put_api_payments_id i req s = (send 404 (Error_text ''Payment not found''), s)"
    by (simp add: put_api_payments_id_def Payment_findByIdAndUpdate_def find_None_key)
next
  assume "castObjectId i = None"
  then show "put_api_payments_id i req s = (send 500 (Error_message CastError), s)"
    by (simp add: put_api_payments_id_def Payment_findByIdAndUpdate_def)
qed

theorem update_payment_status_witness:
  "put_api_payments_id ''000000000000000000000001'' \<lparr>body_status = Some ''REFUNDED''\<rparr>
     \<lparr>users = [], payments = [\<lparr>p_id = 1, userId = ''u1'', gb = Finite 5, totalPrice = Finite 100,
        upiLink = ''upi://x'', status = ''PENDING'', createdAt = 1700000000000\<rparr>]\<rparr>
   = (send 200 (Payment_json \<lparr>p_id = 1, userId = ''u1'', gb = Finite 5, totalPrice = Finite 100,
        upiLink = ''upi://x'', status = ''REFUNDED'', createdAt = 1700000000000\<rparr>),
      \<lparr>users = [], payments = [\<lparr>p_id = 1, userId = ''u1'', gb = Finite 5, totalPrice = Finite 100,
        upiLink = ''upi://x'', status = ''REFUNDED'', createdAt = 1700000000000\<rparr>]\<rparr>)
   \<and> put_api_payments_id ''00000000000000000000000b'' \<lparr>body_status = Some ''REFUNDED''\<rparr>
     \<lparr>users = [], payments = [\<lparr>p_id = 1, userId = ''u1'', gb = Finite 5, totalPrice = Finite 100,
        upiLink = ''upi://x'', status = ''PENDING'', createdAt = 1700000000000\<rparr>]\<rparr>
   = (send 404 (Error_text ''Payment not found''),
      \<lparr>users = [], payments = [\<lparr>p_id = 1, userId = ''u1'', gb = Finite 5, totalPrice = Finite 100,
        upiLink = ''upi://x'', status = ''PENDING'', createdAt = 1700000000000\<rparr>]\<rparr>)
   \<and> put_api_payments_id ''abc'' \<lparr>body_status = Some ''REFUNDED''\<rparr>
     \<lparr>users = [], payments = [\<lparr>p_id = 1, userId = ''u1'', gb = Finite 5, totalPrice = Finite 100,
        upiLink = ''upi://x'', status = ''PENDING'', createdAt = 1700000000000\<rparr>]\<rparr>
   = (send 500 (Error_message CastError),
      \<lparr>users = [], payments = [\<lparr>p_id = 1, userId = ''u1'', gb = Finite 5, totalPrice = Finite 100,
        upiLink = ''upi://x'', status = ''PENDING'', createdAt = 1700000000000\<rparr>]\<rparr>)"
proof -
  let ?p = "\<lparr>p_id = 1, userId = ''u1'', gb = Finite 5, totalPrice = Finite 100,
        upiLink = ''upi://x'', status = ''PENDING'', createdAt = 1700000000000\<rparr>"
  let ?s = "\<lparr>users = [], payments = [?p]\<rparr>"
  show ?thesis
    using update_payment_status [of ?s ?p "''000000000000000000000001''" "''REFUNDED''"]
      update_payment_status [of ?s ?p "''abc''" "''REFUNDED''" 0
        "\<lparr>body_status = Some ''REFUNDED''\<rparr>"]
      update_payment_status [of ?s ?p "''00000000000000000000000b''" "''REFUNDED''" 11
        "\<lparr>body_status = Some ''REFUNDED''\<rparr>"]
    by (simp add: castObjectId_1 castObjectId_2 castObjectId_abc)
qed

text \<open>
  With 404 promised for every identifier that matches no payment, the property fails: on
  the empty store the parameter \<^verbatim>\<open>abc\<close> matches no payment and the answer is 500.
\<close>

theorem update_payment_malformed_id_counterexample:
  "put_api_payments_id ''abc'' \<lparr>body_status = Some ''SUCCESS''\<rparr> empty_store =
     (send 500 (Error_message CastError), empty_store)
   \<and> status_code (fst (put_api_payments_id ''abc'' \<lparr>body_status = Some ''SUCCESS''\<rparr> empty_store)) \<noteq> 404"
  by (simp add: put_api_payments_id_def Payment_findByIdAndUpdate_def castObjectId_abc send_def)

text \<open>
  C9. For every stored payment, addressed by its identifier, a body without \<^verbatim>\<open>status\<close> is
  answered 200 with the payment as stored, \<^verbatim>\<open>status\<close> included, and the store is as before.
\<close>

theorem update_payment_without_status:
  assumes "distinct (map p_id (payments s))" and "p \<in> set (payments s)"
    and "castObjectId i = Some (p_id p)"
  shows "put_api_payments_id i \<lparr>body_status = None\<rparr> s = (send 200 (Payment_json p), s)"
  using assms
  by (simp add: put_api_payments_id_def Payment_findByIdAndUpdate_def find_distinct_key)

theorem update_payment_without_status_witness:
  "put_api_payments_id ''000000000000000000000001'' \<lparr>body_status = None\<rparr>
     \<lparr>users = [], payments = [\<lparr>p_id = 1, userId = ''u1'', gb = Finite 5, totalPrice = Finite 100,
        upiLink = ''upi://x'', status = ''SUCCESS'', createdAt = 1700000000000\<rparr>]\<rparr>
   = (send 200 (Payment_json \<lparr>p_id = 1, userId = ''u1'', gb = Finite 5, totalPrice = Finite 100,
        upiLink = ''upi://x'', status = ''SUCCESS'', createdAt = 1700000000000\<rparr>),
      \<lparr>users = [], payments = [\<lparr>p_id = 1, userId = ''u1'', gb = Finite 5, totalPrice = Finite 100,
        upiLink = ''upi://x'', status = ''SUCCESS'', createdAt = 1700000000000\<rparr>]\<rparr>)"
proof -
  let ?p = "\<lparr>p_id = 1, userId = ''u1'', gb = Finite 5, totalPrice = Finite 100,
        upiLink = ''upi://x'', status = ''SUCCESS'', createdAt = 1700000000000\<rparr>"
  let ?s = "\<lparr>users = [], payments = [?p]\<rparr>"
  have h1: "distinct (map p_id (payments ?s))" by simp
  have h2: "?p \<in> set (payments ?s)" by simp
  have h3: "castObjectId ''000000000000000000000001'' = Some (p_id ?p)"
    by (simp add: castObjectId_1)
  show ?thesis
    using update_payment_without_status [OF h1 h2 h3] by simp
qed

end
